theory Spec2Isabelle
  imports Main "HOL-Library.Sublist"
begin

section \<open>Settings model (types.ts)\<close>

text \<open>
  The string enums of \<^verbatim>\<open>types.ts\<close> are datatypes; the string value of each
  enumerator, which a template literal interpolates, is given by a \<open>_str\<close> function.
\<close>

datatype EnhancementQuality = Q_2K | Q_4K | Q_8K

fun EnhancementQuality_str :: "EnhancementQuality \<Rightarrow> string" where
  "EnhancementQuality_str Q_2K = ''2K (Fast)''"
| "EnhancementQuality_str Q_4K = ''4K (Sharp)''"
| "EnhancementQuality_str Q_8K = ''8K ULTRA HDR''"

datatype EnhancementMode = UPSCALE_ONLY | ENHANCE_RESTORE

datatype IDPhotoSize = SIZE_2x3 | SIZE_3x4 | SIZE_4x6 | SIZE_35x45 | SIZE_5x5

datatype IDPhotoBackground = WHITE | BLUE | RED | BLACK | GRAY

text \<open>
  The numeric fields have the TypeScript type \<open>number\<close>. Every value the application
  stores in them is an integer (the defaults of \<^verbatim>\<open>App.tsx\<close>, and
  \<^verbatim>\<open>Number(e.target.value)\<close> of a range input with integer bounds and step 1 in the
  slider component), so they are modelled as \<open>int\<close>.
\<close>

record EditorSettings =
  quality :: EnhancementQuality
  mode :: EnhancementMode
  retouchLevel :: int
  sharpenLevel :: int
  upscaleLevel :: int
  hyperRealism :: bool
  colorize :: bool
  makeup :: bool

text \<open>The field \<open>size\<close> of the source is \<open>size'\<close> here (\<open>size\<close> is a constant of HOL).\<close>

record IDPhotoSettings =
  size' :: IDPhotoSize
  backgroundColor :: IDPhotoBackground
  quality :: EnhancementQuality
  skinSmoothing :: int
  removeBlemishes :: bool
  fixLighting :: bool

record RestorationSettings =
  scratchReduction :: int
  denoiseLevel :: int
  colorRestoration :: bool
  faceRestoration :: bool
  sharpenArtifacts :: bool
  quality :: EnhancementQuality

section \<open>Numbers in template literals\<close>

text \<open>
  \<^verbatim>\<open>${n}\<close> on an integer \<open>n\<close> is its decimal numeral, with a leading minus sign
  when negative (JavaScript switches to exponent notation only from \<open>10^21\<close> on, far
  beyond every slider bound).
\<close>

definition digit_char :: "nat \<Rightarrow> char" where
  "digit_char d =
     (if d = 0 then CHR ''0'' else if d = 1 then CHR ''1'' else if d = 2 then CHR ''2''
      else if d = 3 then CHR ''3'' else if d = 4 then CHR ''4'' else if d = 5 then CHR ''5''
      else if d = 6 then CHR ''6'' else if d = 7 then CHR ''7'' else if d = 8 then CHR ''8''
      else CHR ''9'')"

fun show_nat :: "nat \<Rightarrow> string" where
  "show_nat n =
     (if n < 10 then [digit_char n]
      else show_nat (n div 10) @ [digit_char (n mod 10)])"

definition show_number :: "int \<Rightarrow> string" where
  "show_number n = (if n < 0 then ''-'' @ show_nat (nat (- n)) else show_nat (nat n))"

section \<open>Requests, responses and errors\<close>

text \<open>
  The objects exchanged with the generation service. A field that may be absent
  (\<open>undefined\<close>) is an \<open>option\<close>. Request parts and response parts have the same shape.
  The field \<open>text\<close> of a part is \<open>text'\<close> here.
\<close>

record InlineData =
  data :: "string option"
  mimeType :: "string option"

record Part =
  inlineData :: "InlineData option"
  text' :: "string option"

record Content =
  parts :: "Part list option"

record Candidate =
  content :: "Content option"

record Response =
  candidates :: "Candidate list option"

record ImageConfig =
  imageSize :: "string option"
  aspectRatio :: "string option"

record GenerateContentConfig =
  imageConfig :: "ImageConfig option"

record GenerateContentParameters =
  model :: string
  contents :: Content
  config :: GenerateContentConfig

text \<open>
  What the code throws: an \<open>Error\<close> with its message, or the \<open>TypeError\<close> of the
  runtime when a property is read from \<open>undefined\<close> (the argument is the property read).
  The message of the latter is the engine's; \<open>message\<close> gives the wording of V8. Nothing
  below depends on that wording beyond its being non-empty.
\<close>

datatype error = Error string | TypeError string

fun message :: "error \<Rightarrow> string" where
  "message (Error m) = m"
| "message (TypeError p) = ''Cannot read properties of undefined (reading '' @ [CHR 0x27] @ p @ [CHR 0x27] @ '')''"

section \<open>Helpers of geminiService.ts\<close>

text \<open>
  \<^verbatim>\<open>dataUrl.replace(/^data:image\/(png|jpeg|jpg|webp);base64,/, "")\<close>: the pattern is
  anchored and not global, so one header is removed at the start, or nothing.
\<close>

fun strip_prefix :: "string \<Rightarrow> string \<Rightarrow> string option" where
  "strip_prefix [] s = Some s"
| "strip_prefix (p # ps) [] = None"
| "strip_prefix (p # ps) (c # cs) = (if p = c then strip_prefix ps cs else None)"

definition cleanBase64 :: "string \<Rightarrow> string" where
  "cleanBase64 dataUrl =
     (case strip_prefix ''data:image/png;base64,'' dataUrl of Some r \<Rightarrow> r | None \<Rightarrow>
      (case strip_prefix ''data:image/jpeg;base64,'' dataUrl of Some r \<Rightarrow> r | None \<Rightarrow>
      (case strip_prefix ''data:image/jpg;base64,'' dataUrl of Some r \<Rightarrow> r | None \<Rightarrow>
      (case strip_prefix ''data:image/webp;base64,'' dataUrl of Some r \<Rightarrow> r | None \<Rightarrow>
       dataUrl))))"

text \<open>
  \<^verbatim>\<open>dataUrl.match(/^data:(image\/[a-zA-Z+]+);base64,/)\<close>: the character class does not
  contain \<open>;\<close>, so the only possible match takes the longest run of class characters.
\<close>

definition mime_char :: "char \<Rightarrow> bool" where
  "mime_char c \<longleftrightarrow>
     c \<in> set ''abcdefghijklmnopqrstuvwxyzABCDEFGHIJKLMNOPQRSTUVWXYZ+''"

definition getMimeType :: "string \<Rightarrow> string" where
  "getMimeType dataUrl =
     (case strip_prefix ''data:image/'' dataUrl of
        None \<Rightarrow> ''image/jpeg''
      | Some r \<Rightarrow>
          (let t = takeWhile mime_char r in
           if t \<noteq> [] \<and> strip_prefix '';base64,'' (dropWhile mime_char r) \<noteq> None
           then ''image/'' @ t else ''image/jpeg''))"

record env =
  API_KEY :: "string option"

definition getApiKey :: "env \<Rightarrow> error + string" where
  "getApiKey e =
     (case API_KEY e of
        None \<Rightarrow> Inl (Error ''API Key is missing. Please check your environment configuration.'')
      | Some apiKey \<Rightarrow>
          if apiKey = [] then
            Inl (Error ''API Key is missing. Please check your environment configuration.'')
          else Inr apiKey)"

text \<open>The loop of \<open>extractImageFromResponse\<close> over the parts of the first candidate.\<close>

fun first_inline_image :: "Part list \<Rightarrow> string option" where
  "first_inline_image [] = None"
| "first_inline_image (part # rest) =
     (case inlineData part of
        None \<Rightarrow> first_inline_image rest
      | Some d \<Rightarrow>
          (case data d of
             None \<Rightarrow> first_inline_image rest
           | Some b \<Rightarrow>
               if b \<noteq> [] then Some (''data:image/png;base64,'' @ b)
               else first_inline_image rest))"

definition extractImageFromResponse :: "Response \<Rightarrow> error + string" where
  "extractImageFromResponse response =
     (case candidates response of
        None \<Rightarrow> Inl (Error ''No image data returned from Gemini.'')
      | Some cs \<Rightarrow>
          (case cs of
             [] \<Rightarrow> Inl (TypeError ''content'')
           | c # _ \<Rightarrow>
               (case content c of
                  None \<Rightarrow> Inl (TypeError ''parts'')
                | Some ct \<Rightarrow>
                    (case parts ct of
                       None \<Rightarrow> Inl (Error ''No image data returned from Gemini.'')
                     | Some ps \<Rightarrow>
                         (case first_inline_image ps of
                            Some url \<Rightarrow> Inr url
                          | None \<Rightarrow> Inl (Error ''No image data returned from Gemini.''))))))"

section \<open>Enhance mode\<close>

text \<open>
  The values \<open>enhanceImageWithGemini\<close> computes before its call: \<open>isPro\<close>, \<open>model\<close>,
  \<open>prompt\<close> and \<open>config\<close>, each as a function of the settings.
\<close>

definition enhance_isPro :: "EditorSettings \<Rightarrow> bool" where
  "enhance_isPro settings \<longleftrightarrow> EditorSettings.quality settings = Q_8K"

definition enhance_model :: "EditorSettings \<Rightarrow> string" where
  "enhance_model settings =
     (if enhance_isPro settings then ''gemini-3-pro-image-preview''
      else ''gemini-2.5-flash-image'')"

definition enhance_prompt :: "EditorSettings \<Rightarrow> string" where
  "enhance_prompt settings =
     ''Edit this image to improve its quality significantly.''
     @ (if mode settings = ENHANCE_RESTORE then
          '' Restore facial details, fix artifacts, and improve lighting.''
          @ (if hyperRealism settings
             then '' Maintain realistic skin texture (hyper-realism).'' else [])
          @ (if makeup settings
             then '' Apply very subtle, natural enhancement to facial features.'' else [])
          @ (if colorize settings
             then '' Ensure colors are vibrant and corrected.'' else [])
        else
          '' Focus strictly on upscaling and sharpening the image details without altering facial features.'')
     @ '' The target quality should perceive as ''
       @ EnhancementQuality_str (EditorSettings.quality settings) @ ''.''
     @ '' Sharpening intensity: '' @ show_number (sharpenLevel settings) @ ''%.''
     @ '' Return the processed image in high resolution.''"

definition enhance_config :: "EditorSettings \<Rightarrow> GenerateContentConfig" where
  "enhance_config settings =
     (if enhance_isPro settings
      then \<lparr>imageConfig = Some \<lparr>imageSize = Some ''4K'', aspectRatio = None\<rparr>\<rparr>
      else \<lparr>imageConfig = None\<rparr>)"

definition enhance_request :: "string \<Rightarrow> EditorSettings \<Rightarrow> GenerateContentParameters" where
  "enhance_request imageBase64 settings =
     \<lparr>model = enhance_model settings,
      contents = \<lparr>parts = Some
        [\<lparr>inlineData = Some \<lparr>data = Some (cleanBase64 imageBase64),
                               mimeType = Some (getMimeType imageBase64)\<rparr>,
          text' = None\<rparr>,
         \<lparr>inlineData = None, text' = Some (enhance_prompt settings)\<rparr>]\<rparr>,
      config = enhance_config settings\<rparr>"

section \<open>ID-photo mode\<close>

fun bgMap :: "IDPhotoBackground \<Rightarrow> string" where
  "bgMap WHITE = ''pure white (#FFFFFF)''"
| "bgMap BLUE = ''standard ID photo blue (#2196F3)''"
| "bgMap RED = ''standard ID photo red (#D32F2F)''"
| "bgMap BLACK = ''solid black''"
| "bgMap GRAY = ''professional gray''"

fun sizeMap :: "IDPhotoSize \<Rightarrow> string" where
  "sizeMap SIZE_2x3 = ''vertical ID photo (2cm x 3cm ratio)''"
| "sizeMap SIZE_3x4 = ''standard vertical ID photo (3cm x 4cm ratio)''"
| "sizeMap SIZE_4x6 = ''large vertical ID photo (4cm x 6cm ratio)''"
| "sizeMap SIZE_35x45 = ''passport photo (3.5cm x 4.5cm ratio)''"
| "sizeMap SIZE_5x5 = ''square visa photo (5cm x 5cm ratio)''"

definition apiAspectRatio :: "IDPhotoSettings \<Rightarrow> string" where
  "apiAspectRatio settings = (if size' settings = SIZE_5x5 then ''1:1'' else ''3:4'')"

definition idphoto_prompt :: "IDPhotoSettings \<Rightarrow> string" where
  "idphoto_prompt settings =
     ''Strictly transform this image into a professional official ID/Passport photo. ''
     @ ''1. CROP & COMPOSITION: Crop the image to a ''
       @ (if apiAspectRatio settings = ''3:4'' then ''Vertical Portrait'' else ''Square'')
       @ '' format. ''
     @ ''The face must be perfectly CENTERED and facing forward. ''
     @ ''The head (from top of hair to chin) must occupy 70% to 80% of the vertical height. ''
     @ ''Include the shoulders. Both ears should be visible if possible. Eyes must be level. ''
     @ ''2. BACKGROUND: Remove the original background completely. Replace with a clean, flat ''
       @ bgMap (backgroundColor settings) @ '' background. No shadows on the background. ''
     @ ''3. ENHANCEMENT: ''
     @ (if removeBlemishes settings
        then ''Remove acne, moles, spots, and scratches from the face. '' else [])
     @ ''Smooth skin texture naturally (Intensity: ''
       @ show_number (skinSmoothing settings) @ ''%). ''
     @ (if fixLighting settings
        then ''Fix lighting to be even and soft (studio lighting), removing harsh shadows on the face. ''
        else [])
     @ ''4. OUTPUT: High resolution, sharp focus. Intended for printing at ''
       @ sizeMap (size' settings) @ ''.''"

definition idphoto_model :: "IDPhotoSettings \<Rightarrow> string" where
  "idphoto_model settings = ''gemini-2.5-flash-image''"

definition idphoto_config :: "IDPhotoSettings \<Rightarrow> GenerateContentConfig" where
  "idphoto_config settings =
     \<lparr>imageConfig = Some \<lparr>imageSize = None, aspectRatio = Some (apiAspectRatio settings)\<rparr>\<rparr>"

definition idphoto_request :: "string \<Rightarrow> IDPhotoSettings \<Rightarrow> GenerateContentParameters" where
  "idphoto_request imageBase64 settings =
     \<lparr>model = idphoto_model settings,
      contents = \<lparr>parts = Some
        [\<lparr>inlineData = Some \<lparr>data = Some (cleanBase64 imageBase64),
                               mimeType = Some (getMimeType imageBase64)\<rparr>,
          text' = None\<rparr>,
         \<lparr>inlineData = None, text' = Some (idphoto_prompt settings)\<rparr>]\<rparr>,
      config = idphoto_config settings\<rparr>"

section \<open>Restore mode\<close>

definition restore_model :: "RestorationSettings \<Rightarrow> string" where
  "restore_model settings = ''gemini-3-pro-image-preview''"

definition restore_prompt :: "RestorationSettings \<Rightarrow> string" where
  "restore_prompt settings =
     ''Act as a professional photo restoration expert. Restore this old, damaged, or blurry photo. ''
     @ ''1. DAMAGE REPAIR: Remove scratches, cracks, tears, dust spots, and fold marks. (Intensity: ''
       @ show_number (scratchReduction settings) @ ''%). ''
     @ ''2. DETAIL RECOVERY: Deblur the image and sharpen details specifically on clothing and background textures. ''
     @ (if faceRestoration settings
        then ''Use advanced facial restoration to recover facial features, eyes, and skin texture. CRITICAL: Do NOT alter the person's identity or facial structure. Keep original angles and features authentic. ''
        else [])
     @ (if colorRestoration settings
        then ''3. COLORIZATION: If the photo is B&W or sepia, strictly colorize it with natural, historically accurate colors. If it's color but faded, restore vibrancy. ''
        else ''3. COLOR: Keep the original color profile (B&W or Sepia) but improve contrast and remove yellow aging stains. '')
     @ ''4. QUALITY: High fidelity restoration. Reduce noise level by ''
       @ show_number (denoiseLevel settings) @ ''%.''"

definition restore_config :: "RestorationSettings \<Rightarrow> GenerateContentConfig" where
  "restore_config settings =
     \<lparr>imageConfig = Some \<lparr>imageSize = Some ''4K'', aspectRatio = None\<rparr>\<rparr>"

definition restore_request :: "string \<Rightarrow> RestorationSettings \<Rightarrow> GenerateContentParameters" where
  "restore_request imageBase64 settings =
     \<lparr>model = restore_model settings,
      contents = \<lparr>parts = Some
        [\<lparr>inlineData = Some \<lparr>data = Some (cleanBase64 imageBase64),
                               mimeType = Some (getMimeType imageBase64)\<rparr>,
          text' = None\<rparr>,
         \<lparr>inlineData = None, text' = Some (restore_prompt settings)\<rparr>]\<rparr>,
      config = restore_config settings\<rparr>"

section \<open>The three transformations\<close>

text \<open>
  The outbound call \<open>ai.models.generateContent\<close> is a parameter: given the API key the
  client was built with and the request, the service answers with a response or rejects
  with an error. Each transformation returns its outcome together with the list of
  outbound calls it made, in order. \<open>getApiKey\<close> runs before the \<open>try\<close> block, so its
  error is not rewrapped; everything thrown inside the block is rethrown as
  \<^verbatim>\<open>new Error(error.message || fallback)\<close>.
\<close>

type_synonym generateContent = "string \<Rightarrow> GenerateContentParameters \<Rightarrow> error + Response"

type_synonym outcome = "(error + string) \<times> (string \<times> GenerateContentParameters) list"

definition rethrow :: "string \<Rightarrow> error \<Rightarrow> error" where
  "rethrow fallback e = Error (if message e = [] then fallback else message e)"

definition enhanceImageWithGemini ::
  "env \<Rightarrow> generateContent \<Rightarrow> string \<Rightarrow> EditorSettings \<Rightarrow> outcome" where
  "enhanceImageWithGemini e net imageBase64 settings =
     (case getApiKey e of
        Inl err \<Rightarrow> (Inl err, [])
      | Inr apiKey \<Rightarrow>
          (let req = enhance_request imageBase64 settings in
           case net apiKey req of
             Inl err \<Rightarrow> (Inl (rethrow ''Failed to process image with AI'' err), [(apiKey, req)])
           | Inr response \<Rightarrow>
               (case extractImageFromResponse response of
                  Inl err \<Rightarrow>
                    (Inl (rethrow ''Failed to process image with AI'' err), [(apiKey, req)])
                | Inr url \<Rightarrow> (Inr url, [(apiKey, req)]))))"

definition generateIDPhotoWithGemini ::
  "env \<Rightarrow> generateContent \<Rightarrow> string \<Rightarrow> IDPhotoSettings \<Rightarrow> outcome" where
  "generateIDPhotoWithGemini e net imageBase64 settings =
     (case getApiKey e of
        Inl err \<Rightarrow> (Inl err, [])
      | Inr apiKey \<Rightarrow>
          (let req = idphoto_request imageBase64 settings in
           case net apiKey req of
             Inl err \<Rightarrow> (Inl (rethrow ''Failed to create ID photo'' err), [(apiKey, req)])
           | Inr response \<Rightarrow>
               (case extractImageFromResponse response of
                  Inl err \<Rightarrow> (Inl (rethrow ''Failed to create ID photo'' err), [(apiKey, req)])
                | Inr url \<Rightarrow> (Inr url, [(apiKey, req)]))))"

definition restoreImageWithGemini ::
  "env \<Rightarrow> generateContent \<Rightarrow> string \<Rightarrow> RestorationSettings \<Rightarrow> outcome" where
  "restoreImageWithGemini e net imageBase64 settings =
     (case getApiKey e of
        Inl err \<Rightarrow> (Inl err, [])
      | Inr apiKey \<Rightarrow>
          (let req = restore_request imageBase64 settings in
           case net apiKey req of
             Inl err \<Rightarrow> (Inl (rethrow ''Failed to restore photo'' err), [(apiKey, req)])
           | Inr response \<Rightarrow>
               (case extractImageFromResponse response of
                  Inl err \<Rightarrow> (Inl (rethrow ''Failed to restore photo'' err), [(apiKey, req)])
                | Inr url \<Rightarrow> (Inr url, [(apiKey, req)]))))"

section \<open>Default settings (App.tsx)\<close>

definition DEFAULT_ENHANCE_SETTINGS :: EditorSettings where
  "DEFAULT_ENHANCE_SETTINGS =
     \<lparr>EditorSettings.quality = Q_4K, mode = ENHANCE_RESTORE, retouchLevel = 50,
      sharpenLevel = 30, upscaleLevel = 25, hyperRealism = True, colorize = True,
      makeup = False\<rparr>"

definition DEFAULT_ID_SETTINGS :: IDPhotoSettings where
  "DEFAULT_ID_SETTINGS =
     \<lparr>size' = SIZE_3x4, backgroundColor = WHITE, IDPhotoSettings.quality = Q_4K,
      skinSmoothing = 60, removeBlemishes = True, fixLighting = True\<rparr>"

definition DEFAULT_RESTORE_SETTINGS :: RestorationSettings where
  "DEFAULT_RESTORE_SETTINGS =
     \<lparr>scratchReduction = 80, denoiseLevel = 50, colorRestoration = True,
      faceRestoration = True, sharpenArtifacts = True, quality = Q_4K\<rparr>"

section \<open>Clauses of the instructions\<close>

text \<open>
  The clauses the properties below speak about, by name. Each is the literal of the
  source; the lemmas that follow relate them to the prompts as the code builds them.
\<close>

definition opening_sentence :: string where
  "opening_sentence = ''Edit this image to improve its quality significantly.''"

definition restoration_clause :: string where
  "restoration_clause = '' Restore facial details, fix artifacts, and improve lighting.''"

definition hyper_realism_clause :: string where
  "hyper_realism_clause = '' Maintain realistic skin texture (hyper-realism).''"

definition makeup_clause :: string where
  "makeup_clause = '' Apply very subtle, natural enhancement to facial features.''"

definition colorize_clause :: string where
  "colorize_clause = '' Ensure colors are vibrant and corrected.''"

definition quality_clause :: "EnhancementQuality \<Rightarrow> string" where
  "quality_clause q =
     '' The target quality should perceive as '' @ EnhancementQuality_str q @ ''.''"

definition sharpen_clause :: "int \<Rightarrow> string" where
  "sharpen_clause n = '' Sharpening intensity: '' @ show_number n @ ''%.''"

definition closing_clause :: string where
  "closing_clause = '' Return the processed image in high resolution.''"

definition colorization_clause :: string where
  "colorization_clause =
     ''3. COLORIZATION: If the photo is B&W or sepia, strictly colorize it with natural, historically accurate colors. If it's color but faded, restore vibrancy. ''"

definition color_keep_clause :: string where
  "color_keep_clause =
     ''3. COLOR: Keep the original color profile (B&W or Sepia) but improve contrast and remove yellow aging stains. ''"

text \<open>
  An instruction as an ordered list of (condition, clause) pairs: the clauses whose
  condition holds, joined in order; a clause whose condition fails contributes nothing.
\<close>

definition assemble :: "(bool \<times> string) list \<Rightarrow> string" where
  "assemble cs = concat (map snd (filter fst cs))"

text \<open>
  The enhance-and-restore instruction as the specification words it: opening sentence,
  restoration clause, hyper-realism clause, colorize clause, quality clause, sharpen
  clause, closing clause.
\<close>

definition spec_enhance_restore_clauses :: "EditorSettings \<Rightarrow> (bool \<times> string) list" where
  "spec_enhance_restore_clauses settings =
     [(True, opening_sentence),
      (True, restoration_clause),
      (hyperRealism settings, hyper_realism_clause),
      (colorize settings, colorize_clause),
      (True, quality_clause (EditorSettings.quality settings)),
      (True, sharpen_clause (sharpenLevel settings)),
      (True, closing_clause)]"

text \<open>The same list with the clause of the \<open>makeup\<close> flag, where the code appends it.\<close>

definition enhance_restore_clauses :: "EditorSettings \<Rightarrow> (bool \<times> string) list" where
  "enhance_restore_clauses settings =
     [(True, opening_sentence),
      (True, restoration_clause),
      (hyperRealism settings, hyper_realism_clause),
      (makeup settings, makeup_clause),
      (colorize settings, colorize_clause),
      (True, quality_clause (EditorSettings.quality settings)),
      (True, sharpen_clause (sharpenLevel settings)),
      (True, closing_clause)]"

text \<open>
  A part carries inline image bytes when the test of the extraction loop,
  \<^verbatim>\<open>part.inlineData && part.inlineData.data\<close>, is truthy: the inline data is present and
  its \<open>data\<close> is a non-empty string.
\<close>

definition carries_image :: "Part \<Rightarrow> bool" where
  "carries_image part \<longleftrightarrow>
     (case inlineData part of
        None \<Rightarrow> False
      | Some d \<Rightarrow> (case data d of None \<Rightarrow> False | Some b \<Rightarrow> b \<noteq> []))"

text \<open>
  The restore instruction around its colour clause: the text the code has built before
  the \<open>if (settings.colorRestoration)\<close> statement, and the text it appends after it.
\<close>

definition restore_before_color :: "RestorationSettings \<Rightarrow> string" where
  "restore_before_color settings =
     ''Act as a professional photo restoration expert. Restore this old, damaged, or blurry photo. ''
     @ ''1. DAMAGE REPAIR: Remove scratches, cracks, tears, dust spots, and fold marks. (Intensity: ''
       @ show_number (scratchReduction settings) @ ''%). ''
     @ ''2. DETAIL RECOVERY: Deblur the image and sharpen details specifically on clothing and background textures. ''
     @ (if faceRestoration settings
        then ''Use advanced facial restoration to recover facial features, eyes, and skin texture. CRITICAL: Do NOT alter the person's identity or facial structure. Keep original angles and features authentic. ''
        else [])"

definition restore_after_color :: "RestorationSettings \<Rightarrow> string" where
  "restore_after_color settings =
     ''4. QUALITY: High fidelity restoration. Reduce noise level by ''
       @ show_number (denoiseLevel settings) @ ''%.''"

text \<open>
  The two colour clauses, each cut at its \<open>&\<close>: the text before it and the text
  after it.
\<close>

definition colorization_head :: string where
  "colorization_head = ''3. COLORIZATION: If the photo is B''"

definition colorization_tail :: string where
  "colorization_tail =
     ''W or sepia, strictly colorize it with natural, historically accurate colors. If it's color but faded, restore vibrancy. ''"

definition color_keep_head :: string where
  "color_keep_head = ''3. COLOR: Keep the original color profile (B''"

definition color_keep_tail :: string where
  "color_keep_tail = ''W or Sepia) but improve contrast and remove yellow aging stains. ''"

text \<open>
  From here on \<open>show_nat\<close> is unfolded by hand only: its equation applies to its own
  right-hand side.
\<close>

declare show_nat.simps [simp del]

section \<open>Model selection and generation config\<close>

text \<open>
  With a key, each transformation makes exactly one outbound call, carrying the request
  built from the image and the settings, whether the service answers or rejects.
\<close>

lemma getApiKey_present: "API_KEY e = Some k \<Longrightarrow> k \<noteq> [] \<Longrightarrow> getApiKey e = Inr k"
  by (simp add: getApiKey_def)

lemma enhanceImageWithGemini_calls:
  "getApiKey e = Inr k \<Longrightarrow>
     snd (enhanceImageWithGemini e net img settings) = [(k, enhance_request img settings)]"
  by (simp add: enhanceImageWithGemini_def Let_def split: sum.splits)

lemma generateIDPhotoWithGemini_calls:
  "getApiKey e = Inr k \<Longrightarrow>
     snd (generateIDPhotoWithGemini e net img settings) = [(k, idphoto_request img settings)]"
  by (simp add: generateIDPhotoWithGemini_def Let_def split: sum.splits)

lemma restoreImageWithGemini_calls:
  "getApiKey e = Inr k \<Longrightarrow>
     snd (restoreImageWithGemini e net img settings) = [(k, restore_request img settings)]"
  by (simp add: restoreImageWithGemini_def Let_def split: sum.splits)

text \<open>
  Claim C1. With a key configured, the enhance operation makes one outbound call, and
  that call names the model \<open>gemini-3-pro-image-preview\<close> and carries the config with
  \<open>imageSize = 4K\<close> exactly when the quality tier is \<open>8K ULTRA HDR\<close>; for every other
  tier it names \<open>gemini-2.5-flash-image\<close> and its config is empty (no size hint). This
  holds whatever the service answers.
\<close>

theorem enhance_model_and_size_hint:
  "API_KEY e = Some k \<Longrightarrow> k \<noteq> [] \<Longrightarrow>
   (EditorSettings.quality settings = Q_8K \<longleftrightarrow>
      map (model \<circ> snd) (snd (enhanceImageWithGemini e net img settings))
        = [''gemini-3-pro-image-preview''])
   \<and> (EditorSettings.quality settings = Q_8K \<longleftrightarrow>
      map (config \<circ> snd) (snd (enhanceImageWithGemini e net img settings))
        = [\<lparr>imageConfig = Some \<lparr>imageSize = Some ''4K'', aspectRatio = None\<rparr>\<rparr>])
   \<and> (EditorSettings.quality settings \<noteq> Q_8K \<longleftrightarrow>
      map (model \<circ> snd) (snd (enhanceImageWithGemini e net img settings))
        = [''gemini-2.5-flash-image''])
   \<and> (EditorSettings.quality settings \<noteq> Q_8K \<longleftrightarrow>
      map (config \<circ> snd) (snd (enhanceImageWithGemini e net img settings))
        = [\<lparr>imageConfig = None\<rparr>])"
proof -
  assume "API_KEY e = Some k" and "k \<noteq> []"
  then have "getApiKey e = Inr k" by (rule getApiKey_present)
  then have calls: "snd (enhanceImageWithGemini e net img settings)
      = [(k, enhance_request img settings)]"
    by (rule enhanceImageWithGemini_calls)
  show ?thesis
    unfolding calls
    by (simp add: enhance_request_def enhance_model_def enhance_config_def enhance_isPro_def)
qed

theorem enhance_model_and_size_hint_witness:
  "API_KEY \<lparr>API_KEY = Some ''key''\<rparr> = Some ''key'' \<and> ''key'' \<noteq> []
   \<and> map (model \<circ> snd)
        (snd (enhanceImageWithGemini \<lparr>API_KEY = Some ''key''\<rparr>
           (\<lambda>key req. Inr \<lparr>candidates = None\<rparr>)
           ''data:image/jpeg;base64,AAAA'' DEFAULT_ENHANCE_SETTINGS))
     = [''gemini-2.5-flash-image'']
   \<and> map (config \<circ> snd)
        (snd (enhanceImageWithGemini \<lparr>API_KEY = Some ''key''\<rparr>
           (\<lambda>key req. Inr \<lparr>candidates = None\<rparr>)
           ''data:image/jpeg;base64,AAAA'' DEFAULT_ENHANCE_SETTINGS))
     = [\<lparr>imageConfig = None\<rparr>]
   \<and> map (model \<circ> snd)
        (snd (enhanceImageWithGemini \<lparr>API_KEY = Some ''key''\<rparr>
           (\<lambda>key req. Inr \<lparr>candidates = None\<rparr>)
           ''data:image/jpeg;base64,AAAA''
           (DEFAULT_ENHANCE_SETTINGS\<lparr>EditorSettings.quality := Q_8K\<rparr>)))
     = [''gemini-3-pro-image-preview'']
   \<and> map (config \<circ> snd)
        (snd (enhanceImageWithGemini \<lparr>API_KEY = Some ''key''\<rparr>
           (\<lambda>key req. Inr \<lparr>candidates = None\<rparr>)
           ''data:image/jpeg;base64,AAAA''
           (DEFAULT_ENHANCE_SETTINGS\<lparr>EditorSettings.quality := Q_8K\<rparr>)))
     = [\<lparr>imageConfig = Some \<lparr>imageSize = Some ''4K'', aspectRatio = None\<rparr>\<rparr>]"
proof -
  have key: "API_KEY \<lparr>API_KEY = Some ''key''\<rparr> = Some ''key''" by simp
  have ne: "''key'' \<noteq> []" by simp
  have q: "EditorSettings.quality DEFAULT_ENHANCE_SETTINGS \<noteq> Q_8K"
    by (simp add: DEFAULT_ENHANCE_SETTINGS_def)
  have q': "EditorSettings.quality (DEFAULT_ENHANCE_SETTINGS\<lparr>EditorSettings.quality := Q_8K\<rparr>)
      = Q_8K"
    by simp
  show ?thesis
    using key ne q q'
      enhance_model_and_size_hint [OF key ne,
        where settings = DEFAULT_ENHANCE_SETTINGS
          and net = "\<lambda>key req. Inr \<lparr>candidates = None\<rparr>"
          and img = "''data:image/jpeg;base64,AAAA''"]
      enhance_model_and_size_hint [OF key ne,
        where settings = "DEFAULT_ENHANCE_SETTINGS\<lparr>EditorSettings.quality := Q_8K\<rparr>"
          and net = "\<lambda>key req. Inr \<lparr>candidates = None\<rparr>"
          and img = "''data:image/jpeg;base64,AAAA''"]
    by blast
qed

text \<open>
  Claim C3. With a key configured, the ID-photo operation makes one outbound call; it
  always names \<open>gemini-2.5-flash-image\<close>, and the aspect ratio of its config is \<open>1:1\<close>
  exactly when the size is the 5x5 option and \<open>3:4\<close> for every other size. Model and
  config of the call do not change when the background colour, the quality tier, the
  skin-smoothing intensity or the two toggles change.
\<close>

theorem idphoto_model_and_aspect_ratio:
  "API_KEY e = Some k \<Longrightarrow> k \<noteq> [] \<Longrightarrow>
   map (model \<circ> snd) (snd (generateIDPhotoWithGemini e net img settings))
     = [''gemini-2.5-flash-image'']
   \<and> (size' settings = SIZE_5x5 \<longleftrightarrow>
        map (config \<circ> snd) (snd (generateIDPhotoWithGemini e net img settings)) =
          [\<lparr>imageConfig = Some \<lparr>imageSize = None, aspectRatio = Some ''1:1''\<rparr>\<rparr>])
   \<and> (size' settings \<noteq> SIZE_5x5 \<longleftrightarrow>
        map (config \<circ> snd) (snd (generateIDPhotoWithGemini e net img settings)) =
          [\<lparr>imageConfig = Some \<lparr>imageSize = None, aspectRatio = Some ''3:4''\<rparr>\<rparr>])
   \<and> map (model \<circ> snd) (snd (generateIDPhotoWithGemini e net img
          (settings\<lparr>backgroundColor := bg, IDPhotoSettings.quality := q, skinSmoothing := m,
             removeBlemishes := rb, fixLighting := fl\<rparr>)))
       = map (model \<circ> snd) (snd (generateIDPhotoWithGemini e net img settings))
   \<and> map (config \<circ> snd) (snd (generateIDPhotoWithGemini e net img
          (settings\<lparr>backgroundColor := bg, IDPhotoSettings.quality := q, skinSmoothing := m,
             removeBlemishes := rb, fixLighting := fl\<rparr>)))
       = map (config \<circ> snd) (snd (generateIDPhotoWithGemini e net img settings))"
proof -
  assume "API_KEY e = Some k" and "k \<noteq> []"
  then have key: "getApiKey e = Inr k" by (rule getApiKey_present)
  have calls: "snd (generateIDPhotoWithGemini e net img s) = [(k, idphoto_request img s)]"
    for s
    using key by (rule generateIDPhotoWithGemini_calls)
  show ?thesis
    unfolding calls
    by (simp add: idphoto_request_def idphoto_model_def idphoto_config_def apiAspectRatio_def)
qed

theorem idphoto_model_and_aspect_ratio_witness:
  "API_KEY \<lparr>API_KEY = Some ''key''\<rparr> = Some ''key'' \<and> ''key'' \<noteq> []
   \<and> map (model \<circ> snd)
        (snd (generateIDPhotoWithGemini \<lparr>API_KEY = Some ''key''\<rparr>
           (\<lambda>key req. Inr \<lparr>candidates = None\<rparr>)
           ''data:image/jpeg;base64,AAAA'' DEFAULT_ID_SETTINGS))
     = [''gemini-2.5-flash-image'']
   \<and> map (config \<circ> snd)
        (snd (generateIDPhotoWithGemini \<lparr>API_KEY = Some ''key''\<rparr>
           (\<lambda>key req. Inr \<lparr>candidates = None\<rparr>)
           ''data:image/jpeg;base64,AAAA'' DEFAULT_ID_SETTINGS))
     = [\<lparr>imageConfig = Some \<lparr>imageSize = None, aspectRatio = Some ''3:4''\<rparr>\<rparr>]
   \<and> map (config \<circ> snd)
        (snd (generateIDPhotoWithGemini \<lparr>API_KEY = Some ''key''\<rparr>
           (\<lambda>key req. Inr \<lparr>candidates = None\<rparr>)
           ''data:image/jpeg;base64,AAAA'' (DEFAULT_ID_SETTINGS\<lparr>size' := SIZE_5x5\<rparr>)))
     = [\<lparr>imageConfig = Some \<lparr>imageSize = None, aspectRatio = Some ''1:1''\<rparr>\<rparr>]"
proof -
  have key: "API_KEY \<lparr>API_KEY = Some ''key''\<rparr> = Some ''key''" by simp
  have ne: "''key'' \<noteq> []" by simp
  have s: "size' DEFAULT_ID_SETTINGS \<noteq> SIZE_5x5"
    by (simp add: DEFAULT_ID_SETTINGS_def)
  have s': "size' (DEFAULT_ID_SETTINGS\<lparr>size' := SIZE_5x5\<rparr>) = SIZE_5x5"
    by simp
  show ?thesis
    using key ne s s'
      idphoto_model_and_aspect_ratio [OF key ne,
        where settings = DEFAULT_ID_SETTINGS
          and net = "\<lambda>key req. Inr \<lparr>candidates = None\<rparr>"
          and img = "''data:image/jpeg;base64,AAAA''"]
      idphoto_model_and_aspect_ratio [OF key ne,
        where settings = "DEFAULT_ID_SETTINGS\<lparr>size' := SIZE_5x5\<rparr>"
          and net = "\<lambda>key req. Inr \<lparr>candidates = None\<rparr>"
          and img = "''data:image/jpeg;base64,AAAA''"]
    by blast
qed

text \<open>
  Claim C4. With a key configured, the restore operation makes one outbound call; it
  names \<open>gemini-3-pro-image-preview\<close> and its config carries \<open>imageSize = 4K\<close>, whatever
  the settings. Replacing the quality tier by any other changes neither the model nor
  the config of the call.
\<close>

theorem restore_model_and_size_hint:
  "API_KEY e = Some k \<Longrightarrow> k \<noteq> [] \<Longrightarrow>
   map (model \<circ> snd) (snd (restoreImageWithGemini e net img settings))
     = [''gemini-3-pro-image-preview'']
   \<and> map (config \<circ> snd) (snd (restoreImageWithGemini e net img settings))
     = [\<lparr>imageConfig = Some \<lparr>imageSize = Some ''4K'', aspectRatio = None\<rparr>\<rparr>]
   \<and> map (model \<circ> snd)
        (snd (restoreImageWithGemini e net img (settings\<lparr>RestorationSettings.quality := q\<rparr>)))
     = map (model \<circ> snd) (snd (restoreImageWithGemini e net img settings))
   \<and> map (config \<circ> snd)
        (snd (restoreImageWithGemini e net img (settings\<lparr>RestorationSettings.quality := q\<rparr>)))
     = map (config \<circ> snd) (snd (restoreImageWithGemini e net img settings))"
proof -
  assume "API_KEY e = Some k" and "k \<noteq> []"
  then have key: "getApiKey e = Inr k" by (rule getApiKey_present)
  have calls: "snd (restoreImageWithGemini e net img s) = [(k, restore_request img s)]"
    for s
    using key by (rule restoreImageWithGemini_calls)
  show ?thesis
    unfolding calls
    by (simp add: restore_request_def restore_model_def restore_config_def)
qed

theorem restore_model_and_size_hint_witness:
  "API_KEY \<lparr>API_KEY = Some ''key''\<rparr> = Some ''key'' \<and> ''key'' \<noteq> []
   \<and> map (model \<circ> snd)
        (snd (restoreImageWithGemini \<lparr>API_KEY = Some ''key''\<rparr>
           (\<lambda>key req. Inr \<lparr>candidates = None\<rparr>)
           ''data:image/jpeg;base64,AAAA'' DEFAULT_RESTORE_SETTINGS))
     = [''gemini-3-pro-image-preview'']
   \<and> map (config \<circ> snd)
        (snd (restoreImageWithGemini \<lparr>API_KEY = Some ''key''\<rparr>
           (\<lambda>key req. Inr \<lparr>candidates = None\<rparr>)
           ''data:image/jpeg;base64,AAAA''
           (DEFAULT_RESTORE_SETTINGS\<lparr>RestorationSettings.quality := Q_2K\<rparr>)))
     = [\<lparr>imageConfig = Some \<lparr>imageSize = Some ''4K'', aspectRatio = None\<rparr>\<rparr>]"
proof -
  have key: "API_KEY \<lparr>API_KEY = Some ''key''\<rparr> = Some ''key''" by simp
  have ne: "''key'' \<noteq> []" by simp
  show ?thesis
    using key ne
      restore_model_and_size_hint [OF key ne,
        where settings = DEFAULT_RESTORE_SETTINGS and q = Q_2K
          and net = "\<lambda>key req. Inr \<lparr>candidates = None\<rparr>"
          and img = "''data:image/jpeg;base64,AAAA''"]
      restore_model_and_size_hint [OF key ne,
        where settings = "DEFAULT_RESTORE_SETTINGS\<lparr>RestorationSettings.quality := Q_2K\<rparr>"
          and q = Q_2K
          and net = "\<lambda>key req. Inr \<lparr>candidates = None\<rparr>"
          and img = "''data:image/jpeg;base64,AAAA''"]
    by blast
qed

section \<open>Missing credential\<close>

text \<open>
  Claim C8. When the API key is absent from the environment, each of the three
  transformations fails with the error
  \<open>API Key is missing. Please check your environment configuration.\<close> and has made no
  outbound call, whatever the image, the settings and the service.
\<close>

theorem missing_api_key_fails_before_call:
  "API_KEY e = None \<Longrightarrow>
     enhanceImageWithGemini e net img es =
       (Inl (Error ''API Key is missing. Please check your environment configuration.''), [])
     \<and> generateIDPhotoWithGemini e net img ids =
       (Inl (Error ''API Key is missing. Please check your environment configuration.''), [])
     \<and> restoreImageWithGemini e net img rs =
       (Inl (Error ''API Key is missing. Please check your environment configuration.''), [])"
  by (simp add: enhanceImageWithGemini_def generateIDPhotoWithGemini_def
        restoreImageWithGemini_def getApiKey_def)

theorem missing_api_key_fails_before_call_witness:
  "API_KEY \<lparr>API_KEY = None\<rparr> = None
   \<and> enhanceImageWithGemini \<lparr>API_KEY = None\<rparr> (\<lambda>k r. Inr \<lparr>candidates = None\<rparr>)
        ''data:image/jpeg;base64,AAAA'' DEFAULT_ENHANCE_SETTINGS =
       (Inl (Error ''API Key is missing. Please check your environment configuration.''), [])
   \<and> generateIDPhotoWithGemini \<lparr>API_KEY = None\<rparr> (\<lambda>k r. Inr \<lparr>candidates = None\<rparr>)
        ''data:image/jpeg;base64,AAAA'' DEFAULT_ID_SETTINGS =
       (Inl (Error ''API Key is missing. Please check your environment configuration.''), [])
   \<and> restoreImageWithGemini \<lparr>API_KEY = None\<rparr> (\<lambda>k r. Inr \<lparr>candidates = None\<rparr>)
        ''data:image/jpeg;base64,AAAA'' DEFAULT_RESTORE_SETTINGS =
       (Inl (Error ''API Key is missing. Please check your environment configuration.''), [])"
proof -
  have k: "API_KEY \<lparr>API_KEY = None\<rparr> = None" by simp
  from k missing_api_key_fails_before_call [OF k] show ?thesis by blast
qed

section \<open>Settings without influence\<close>

text \<open>
  Claim C9. Two enhancement settings that differ only in \<open>retouchLevel\<close> and
  \<open>upscaleLevel\<close> give the same instruction text, the same model and the same config
  (and so the same request and the same outcome of the whole transformation).
\<close>

theorem enhance_ignores_retouch_and_upscale:
  "enhance_prompt (settings\<lparr>retouchLevel := r, upscaleLevel := u\<rparr>) = enhance_prompt settings
   \<and> enhance_model (settings\<lparr>retouchLevel := r, upscaleLevel := u\<rparr>) = enhance_model settings
   \<and> enhance_config (settings\<lparr>retouchLevel := r, upscaleLevel := u\<rparr>) = enhance_config settings
   \<and> enhance_request img (settings\<lparr>retouchLevel := r, upscaleLevel := u\<rparr>)
       = enhance_request img settings
   \<and> enhanceImageWithGemini e net img (settings\<lparr>retouchLevel := r, upscaleLevel := u\<rparr>)
       = enhanceImageWithGemini e net img settings"
proof -
  have req: "enhance_request img (settings\<lparr>retouchLevel := r, upscaleLevel := u\<rparr>)
      = enhance_request img settings"
    by (simp add: enhance_request_def enhance_prompt_def enhance_model_def
          enhance_config_def enhance_isPro_def)
  have "enhanceImageWithGemini e net img (settings\<lparr>retouchLevel := r, upscaleLevel := u\<rparr>)
      = enhanceImageWithGemini e net img settings"
    unfolding enhanceImageWithGemini_def req ..
  with req show ?thesis
    by (simp add: enhance_prompt_def enhance_model_def enhance_config_def enhance_isPro_def)
qed

theorem enhance_ignores_retouch_and_upscale_witness:
  "enhance_prompt (DEFAULT_ENHANCE_SETTINGS\<lparr>retouchLevel := 0, upscaleLevel := 100\<rparr>)
     = enhance_prompt DEFAULT_ENHANCE_SETTINGS
   \<and> enhance_request ''data:image/jpeg;base64,AAAA''
         (DEFAULT_ENHANCE_SETTINGS\<lparr>retouchLevel := 0, upscaleLevel := 100\<rparr>)
     = enhance_request ''data:image/jpeg;base64,AAAA'' DEFAULT_ENHANCE_SETTINGS"
  using enhance_ignores_retouch_and_upscale
          [where settings = DEFAULT_ENHANCE_SETTINGS and r = 0 and u = 100
             and img = "''data:image/jpeg;base64,AAAA''"]
  by blast

text \<open>
  Claim C10. Two restoration settings that differ only in \<open>sharpenArtifacts\<close> give the
  same instruction text, the same model and the same config (and so the same request
  and the same outcome of the whole transformation).
\<close>

theorem restore_ignores_sharpenArtifacts:
  "restore_prompt (settings\<lparr>sharpenArtifacts := b\<rparr>) = restore_prompt settings
   \<and> restore_model (settings\<lparr>sharpenArtifacts := b\<rparr>) = restore_model settings
   \<and> restore_config (settings\<lparr>sharpenArtifacts := b\<rparr>) = restore_config settings
   \<and> restore_request img (settings\<lparr>sharpenArtifacts := b\<rparr>)
       = restore_request img settings
   \<and> restoreImageWithGemini e net img (settings\<lparr>sharpenArtifacts := b\<rparr>)
       = restoreImageWithGemini e net img settings"
proof -
  have req: "restore_request img (settings\<lparr>sharpenArtifacts := b\<rparr>)
      = restore_request img settings"
    by (simp add: restore_request_def restore_prompt_def restore_model_def restore_config_def)
  have "restoreImageWithGemini e net img (settings\<lparr>sharpenArtifacts := b\<rparr>)
      = restoreImageWithGemini e net img settings"
    unfolding restoreImageWithGemini_def req ..
  with req show ?thesis
    by (simp add: restore_prompt_def restore_model_def restore_config_def)
qed

theorem restore_ignores_sharpenArtifacts_witness:
  "restore_prompt (DEFAULT_RESTORE_SETTINGS\<lparr>sharpenArtifacts := False\<rparr>)
     = restore_prompt DEFAULT_RESTORE_SETTINGS
   \<and> restore_request ''data:image/jpeg;base64,AAAA''
         (DEFAULT_RESTORE_SETTINGS\<lparr>sharpenArtifacts := False\<rparr>)
     = restore_request ''data:image/jpeg;base64,AAAA'' DEFAULT_RESTORE_SETTINGS"
  using restore_ignores_sharpenArtifacts
          [where settings = DEFAULT_RESTORE_SETTINGS and b = False
             and img = "''data:image/jpeg;base64,AAAA''"]
  by blast

section \<open>Response extraction\<close>

lemma first_inline_image_skip:
  "\<not> carries_image part \<Longrightarrow> first_inline_image (part # rest) = first_inline_image rest"
  by (simp add: carries_image_def split: option.splits)

lemma first_inline_image_hit:
  "inlineData part = Some d \<Longrightarrow> data d = Some b \<Longrightarrow> b \<noteq> [] \<Longrightarrow>
     first_inline_image (part # rest) = Some (''data:image/png;base64,'' @ b)"
  by simp

text \<open>
  The loop returns the payload of the first part that carries image bytes, under the
  fixed \<open>image/png\<close> header, whatever the part's own media type and whatever follows.
\<close>

lemma first_inline_image_first:
  assumes "\<forall>q \<in> set pre. \<not> carries_image q"
    and "inlineData part = Some d" and "data d = Some b" and "b \<noteq> []"
  shows "first_inline_image (pre @ part # post) = Some (''data:image/png;base64,'' @ b)"
  using assms(1)
proof (induction pre)
  case Nil
  from assms(2-4) show ?case by simp
next
  case (Cons q pre)
  then have "first_inline_image ((q # pre) @ part # post) = first_inline_image (pre @ part # post)"
    using first_inline_image_skip [of q "pre @ part # post"] by simp
  with Cons show ?case by simp
qed

lemma first_inline_image_None:
  "first_inline_image ps = None \<longleftrightarrow> (\<forall>q \<in> set ps. \<not> carries_image q)"
  by (induction ps) (auto simp: carries_image_def split: option.splits)

text \<open>
  On a response whose first candidate has a content with a parts list, extraction is
  the loop over that list, with the error \<open>No image data returned from Gemini.\<close> when
  the loop finds nothing.
\<close>

lemma extractImageFromResponse_parts:
  assumes "candidates response = Some (c # cs)" and "content c = Some ct"
    and "parts ct = Some ps"
  shows "extractImageFromResponse response =
    (case first_inline_image ps of
       Some url \<Rightarrow> Inr url
     | None \<Rightarrow> Inl (Error ''No image data returned from Gemini.''))"
  using assms by (simp add: extractImageFromResponse_def)

lemma extractImageFromResponse_first_segment:
  assumes "candidates response = Some (c # cs)" and "content c = Some ct"
    and "parts ct = Some (pre @ part # post)"
    and "\<forall>q \<in> set pre. \<not> carries_image q"
    and "inlineData part = Some d" and "data d = Some b" and "b \<noteq> []"
  shows "extractImageFromResponse response = Inr (''data:image/png;base64,'' @ b)"
  using extractImageFromResponse_parts [OF assms(1-3)]
    first_inline_image_first [OF assms(4-7), of post]
  by simp

lemma extractImageFromResponse_no_segment:
  assumes "candidates response = Some (c # cs)" and "content c = Some ct"
    and "parts ct = Some ps" and "\<forall>q \<in> set ps. \<not> carries_image q"
  shows "extractImageFromResponse response = Inl (Error ''No image data returned from Gemini.'')"
proof -
  from assms(4) have "first_inline_image ps = None"
    by (simp add: first_inline_image_None)
  with extractImageFromResponse_parts [OF assms(1-3)] show ?thesis by simp
qed

text \<open>
  Claim C2. The claim asks that every response without an image-bearing segment fail
  with \<open>No image data returned from Gemini.\<close>. A response whose candidate list is
  present but empty has no such segment, yet the guard
  \<^verbatim>\<open>response.candidates && response.candidates[0].content.parts\<close> reads \<open>content\<close> from
  \<open>undefined\<close> there, and the function fails with the runtime's \<open>TypeError\<close> instead.
  The same happens when the first candidate has no content.
\<close>

theorem extractImageFromResponse_empty_candidates:
  "extractImageFromResponse \<lparr>candidates = Some []\<rparr> = Inl (TypeError ''content'')
   \<and> extractImageFromResponse \<lparr>candidates = Some []\<rparr>
       \<noteq> Inl (Error ''No image data returned from Gemini.'')
   \<and> extractImageFromResponse \<lparr>candidates = Some [\<lparr>content = None\<rparr>]\<rparr>
       = Inl (TypeError ''parts'')"
  by (simp add: extractImageFromResponse_def)

lemma strip_prefix_append: "strip_prefix p (p @ s) = Some s"
  by (induction p) simp_all

text \<open>
  Claim C7, as amended. For every non-empty payload \<open>B\<close>, extraction from a response
  with one inline-image segment whose data is \<open>B\<close> (of any declared media type) gives
  the header \<open>data:image/png;base64,\<close> followed by \<open>B\<close>, and \<open>cleanBase64\<close> of that
  result is exactly \<open>B\<close>.
\<close>

theorem extract_clean_roundtrip:
  "B \<noteq> [] \<Longrightarrow>
     extractImageFromResponse
       \<lparr>candidates = Some [\<lparr>content = Some \<lparr>parts = Some
          [\<lparr>inlineData = Some \<lparr>data = Some B, mimeType = mt\<rparr>, text' = None\<rparr>]\<rparr>\<rparr>]\<rparr>
       = Inr (''data:image/png;base64,'' @ B)
     \<and> cleanBase64 (''data:image/png;base64,'' @ B) = B"
proof -
  assume B: "B \<noteq> []"
  have "strip_prefix ''data:image/png;base64,'' (''data:image/png;base64,'' @ B) = Some B"
    by (rule strip_prefix_append)
  then have clean: "cleanBase64 (''data:image/png;base64,'' @ B) = B"
    unfolding cleanBase64_def by simp
  from B have "extractImageFromResponse
       \<lparr>candidates = Some [\<lparr>content = Some \<lparr>parts = Some
          [\<lparr>inlineData = Some \<lparr>data = Some B, mimeType = mt\<rparr>, text' = None\<rparr>]\<rparr>\<rparr>]\<rparr>
       = Inr (''data:image/png;base64,'' @ B)"
    by (simp add: extractImageFromResponse_def)
  with clean show ?thesis by blast
qed

theorem extract_clean_roundtrip_witness:
  "''iVBORw0KGgo='' \<noteq> []
   \<and> extractImageFromResponse
       \<lparr>candidates = Some [\<lparr>content = Some \<lparr>parts = Some
          [\<lparr>inlineData = Some \<lparr>data = Some ''iVBORw0KGgo='', mimeType = Some ''image/jpeg''\<rparr>,
            text' = None\<rparr>]\<rparr>\<rparr>]\<rparr>
       = Inr ''data:image/png;base64,iVBORw0KGgo=''
   \<and> cleanBase64 ''data:image/png;base64,iVBORw0KGgo='' = ''iVBORw0KGgo=''"
proof -
  have B: "''iVBORw0KGgo='' \<noteq> []" by simp
  from B extract_clean_roundtrip [OF B, of "Some ''image/jpeg''"] show ?thesis by simp
qed

text \<open>
  The claim as stated, for every payload, fails at the empty payload: the loop's test
  takes an empty \<open>data\<close> for absent, so nothing is extracted.
\<close>

theorem extract_clean_roundtrip_counterexample:
  "extractImageFromResponse
     \<lparr>candidates = Some [\<lparr>content = Some \<lparr>parts = Some
        [\<lparr>inlineData = Some \<lparr>data = Some [], mimeType = Some ''image/png''\<rparr>,
          text' = None\<rparr>]\<rparr>\<rparr>]\<rparr>
     = Inl (Error ''No image data returned from Gemini.'')"
  by (simp add: extractImageFromResponse_def)

section \<open>Clause structure of the enhance instruction\<close>

text \<open>
  Claim C6, as amended. With processing mode \<open>Enhance & Restore\<close> the instruction is
  the concatenation, in this order, of: the opening sentence; the restoration clause;
  the hyper-realism clause iff \<open>hyperRealism\<close>; the makeup clause iff \<open>makeup\<close>; the
  colorize clause iff \<open>colorize\<close>; the quality clause with the tier's label; the sharpen
  clause with the sharpen level; the closing clause. A clause whose flag is false is
  absent.
\<close>

theorem enhance_restore_prompt_clauses:
  "mode settings = ENHANCE_RESTORE \<Longrightarrow>
     enhance_prompt settings =
       opening_sentence @ restoration_clause
       @ (if hyperRealism settings then hyper_realism_clause else [])
       @ (if makeup settings then makeup_clause else [])
       @ (if colorize settings then colorize_clause else [])
       @ quality_clause (EditorSettings.quality settings)
       @ sharpen_clause (sharpenLevel settings)
       @ closing_clause
     \<and> enhance_prompt settings = assemble (enhance_restore_clauses settings)"
  by (simp add: enhance_prompt_def assemble_def enhance_restore_clauses_def
        opening_sentence_def restoration_clause_def hyper_realism_clause_def
        makeup_clause_def colorize_clause_def quality_clause_def sharpen_clause_def
        closing_clause_def)

theorem enhance_restore_prompt_clauses_witness:
  "mode (DEFAULT_ENHANCE_SETTINGS\<lparr>makeup := True\<rparr>) = ENHANCE_RESTORE
   \<and> enhance_prompt (DEFAULT_ENHANCE_SETTINGS\<lparr>makeup := True\<rparr>) =
       opening_sentence @ restoration_clause @ hyper_realism_clause @ makeup_clause
       @ colorize_clause @ quality_clause Q_4K @ sharpen_clause 30 @ closing_clause"
proof -
  have m: "mode (DEFAULT_ENHANCE_SETTINGS\<lparr>makeup := True\<rparr>) = ENHANCE_RESTORE"
    by (simp add: DEFAULT_ENHANCE_SETTINGS_def)
  from m enhance_restore_prompt_clauses [OF m] show ?thesis
    by (simp add: DEFAULT_ENHANCE_SETTINGS_def)
qed

text \<open>
  The list of the claim as stated has no makeup clause; with \<open>makeup\<close> set the code's
  instruction is a different string.
\<close>

theorem enhance_restore_prompt_clauses_counterexample:
  "mode (DEFAULT_ENHANCE_SETTINGS\<lparr>makeup := True\<rparr>) = ENHANCE_RESTORE
   \<and> enhance_prompt (DEFAULT_ENHANCE_SETTINGS\<lparr>makeup := True\<rparr>)
       \<noteq> assemble (spec_enhance_restore_clauses (DEFAULT_ENHANCE_SETTINGS\<lparr>makeup := True\<rparr>))"
  by (simp add: DEFAULT_ENHANCE_SETTINGS_def enhance_prompt_def assemble_def
        spec_enhance_restore_clauses_def opening_sentence_def restoration_clause_def
        hyper_realism_clause_def colorize_clause_def)

text \<open>Without the makeup flag the code's instruction is the list of the specification.\<close>

lemma enhance_restore_prompt_no_makeup:
  "mode settings = ENHANCE_RESTORE \<Longrightarrow> \<not> makeup settings \<Longrightarrow>
     enhance_prompt settings = assemble (spec_enhance_restore_clauses settings)"
  by (simp add: enhance_prompt_def assemble_def spec_enhance_restore_clauses_def
        opening_sentence_def restoration_clause_def hyper_realism_clause_def
        colorize_clause_def quality_clause_def sharpen_clause_def closing_clause_def)

section \<open>The colour clause of the restore instruction\<close>

text \<open>A rendered number consists of digits and possibly a minus sign.\<close>

lemma amp_not_in_show_nat: "CHR ''&'' \<notin> set (show_nat n)"
proof (induction n rule: show_nat.induct)
  case (1 n)
  show ?case
  proof (cases "n < 10")
    case True
    then show ?thesis by (subst show_nat.simps) (simp add: digit_char_def)
  next
    case False
    with "1.IH" show ?thesis by (subst show_nat.simps) (simp add: digit_char_def)
  qed
qed

lemma amp_not_in_show_number: "CHR ''&'' \<notin> set (show_number n)"
  by (simp add: show_number_def amp_not_in_show_nat)

text \<open>
  Occurrences of a string that contains a marker character, inside a text that
  contains the marker exactly once: the occurrence is pinned to the marker.
\<close>

lemma split_at_unique:
  "c \<notin> set a \<Longrightarrow> c \<notin> set a' \<Longrightarrow> a @ c # b = a' @ c # b' \<Longrightarrow> a = a' \<and> b = b'"
proof (induction a arbitrary: a')
  case Nil
  then show ?case by (cases a') auto
next
  case (Cons x a)
  then show ?case by (cases a') auto
qed

lemma filter_eq_absent: "c \<notin> set xs \<Longrightarrow> filter ((=) c) xs = []"
  by (induction xs) auto

lemma occurrence_at_marker:
  assumes pa: "c \<notin> set pa" and pb: "c \<notin> set pb"
    and ka: "c \<notin> set ka"
    and eq: "pa @ c # pb = ps @ (ka @ c # kb) @ ss"
  shows "ps @ ka = pa \<and> kb @ ss = pb"
proof -
  from pa pb have "filter ((=) c) (pa @ c # pb) = [c]"
    by (simp add: filter_eq_absent)
  then have "filter ((=) c) (ps @ (ka @ c # kb) @ ss) = [c]"
    unfolding eq .
  with ka have "filter ((=) c) ps @ c # filter ((=) c) kb @ filter ((=) c) ss = [c]"
    by (simp add: filter_eq_absent)
  then have "filter ((=) c) ps = []"
    by (cases "filter ((=) c) ps") simp_all
  then have ps: "c \<notin> set ps"
    by (auto simp: filter_empty_conv)
  from eq have "(ps @ ka) @ c # (kb @ ss) = pa @ c # pb" by simp
  with split_at_unique [of c "ps @ ka" pa "kb @ ss" pb] ps ka pa
  show ?thesis by simp
qed

lemma sublist_single_marker:
  assumes "c \<notin> set pa" and "c \<notin> set pb" and "c \<notin> set ka"
    and sub: "sublist (ka @ c # kb) (pa @ c # pb)"
  shows "suffix ka pa \<and> prefix kb pb"
proof -
  from sub obtain ps ss where "pa @ c # pb = ps @ (ka @ c # kb) @ ss"
    unfolding sublist_def by blast
  from occurrence_at_marker [OF assms(1-3) this]
  show ?thesis unfolding suffix_def prefix_def by blast
qed

lemma restore_prompt_split:
  "restore_prompt settings =
     restore_before_color settings
     @ (if colorRestoration settings then colorization_clause else color_keep_clause)
     @ restore_after_color settings"
  by (simp add: restore_prompt_def restore_before_color_def restore_after_color_def
        colorization_clause_def color_keep_clause_def)

lemma amp_not_in_restore_before_color: "CHR ''&'' \<notin> set (restore_before_color settings)"
  by (simp add: restore_before_color_def amp_not_in_show_number)

lemma amp_not_in_restore_after_color: "CHR ''&'' \<notin> set (restore_after_color settings)"
  by (simp add: restore_after_color_def amp_not_in_show_number)

lemma colorization_clause_marker:
  "colorization_clause = colorization_head @ CHR ''&'' # colorization_tail"
  by (simp add: colorization_clause_def colorization_head_def colorization_tail_def)

lemma color_keep_clause_marker:
  "color_keep_clause = color_keep_head @ CHR ''&'' # color_keep_tail"
  by (simp add: color_keep_clause_def color_keep_head_def color_keep_tail_def)

lemma amp_not_in_heads_tails:
  "CHR ''&'' \<notin> set colorization_head" "CHR ''&'' \<notin> set colorization_tail"
  "CHR ''&'' \<notin> set color_keep_head" "CHR ''&'' \<notin> set color_keep_tail"
  by (simp_all add: colorization_head_def colorization_tail_def color_keep_head_def
        color_keep_tail_def)

lemma tails_differ:
  "\<not> prefix color_keep_tail (colorization_tail @ xs)"
  "\<not> prefix colorization_tail (color_keep_tail @ xs)"
  by (simp_all add: colorization_tail_def color_keep_tail_def)

lemma restore_prompt_colorize_marker:
  "colorRestoration settings \<Longrightarrow> restore_prompt settings =
     (restore_before_color settings @ colorization_head) @ CHR ''&'' #
     (colorization_tail @ restore_after_color settings)"
  by (simp add: restore_prompt_split colorization_clause_marker)

lemma restore_prompt_keep_marker:
  "\<not> colorRestoration settings \<Longrightarrow> restore_prompt settings =
     (restore_before_color settings @ color_keep_head) @ CHR ''&'' #
     (color_keep_tail @ restore_after_color settings)"
  by (simp add: restore_prompt_split color_keep_clause_marker)

lemma keep_clause_absent:
  assumes "colorRestoration settings"
  shows "\<not> sublist color_keep_clause (restore_prompt settings)"
proof
  assume "sublist color_keep_clause (restore_prompt settings)"
  then have sub: "sublist (color_keep_head @ CHR ''&'' # color_keep_tail)
      ((restore_before_color settings @ colorization_head) @ CHR ''&'' #
       (colorization_tail @ restore_after_color settings))"
    unfolding restore_prompt_colorize_marker [OF assms] color_keep_clause_marker .
  have pa: "CHR ''&'' \<notin> set (restore_before_color settings @ colorization_head)"
    using amp_not_in_restore_before_color amp_not_in_heads_tails(1) by simp
  have pb: "CHR ''&'' \<notin> set (colorization_tail @ restore_after_color settings)"
    using amp_not_in_restore_after_color amp_not_in_heads_tails(2) by simp
  from sublist_single_marker [OF pa pb amp_not_in_heads_tails(3) sub]
  have "prefix color_keep_tail (colorization_tail @ restore_after_color settings)" ..
  with tails_differ(1) show False by blast
qed

lemma colorization_clause_absent:
  assumes "\<not> colorRestoration settings"
  shows "\<not> sublist colorization_clause (restore_prompt settings)"
proof
  assume "sublist colorization_clause (restore_prompt settings)"
  then have sub: "sublist (colorization_head @ CHR ''&'' # colorization_tail)
      ((restore_before_color settings @ color_keep_head) @ CHR ''&'' #
       (color_keep_tail @ restore_after_color settings))"
    unfolding restore_prompt_keep_marker [OF assms] colorization_clause_marker .
  have pa: "CHR ''&'' \<notin> set (restore_before_color settings @ color_keep_head)"
    using amp_not_in_restore_before_color amp_not_in_heads_tails(3) by simp
  have pb: "CHR ''&'' \<notin> set (color_keep_tail @ restore_after_color settings)"
    using amp_not_in_restore_after_color amp_not_in_heads_tails(4) by simp
  from sublist_single_marker [OF pa pb amp_not_in_heads_tails(1) sub]
  have "prefix colorization_tail (color_keep_tail @ restore_after_color settings)" ..
  with tails_differ(2) show False by blast
qed

lemma color_clause_present:
  "sublist (if colorRestoration settings then colorization_clause else color_keep_clause)
     (restore_prompt settings)"
  unfolding restore_prompt_split by (rule sublist_appendI)

lemma clauses_not_nested:
  "\<not> sublist color_keep_clause colorization_clause"
  "\<not> sublist colorization_clause color_keep_clause"
proof -
  show "\<not> sublist color_keep_clause colorization_clause"
  proof
    assume "sublist color_keep_clause colorization_clause"
    then have "sublist (color_keep_head @ CHR ''&'' # color_keep_tail)
        (colorization_head @ CHR ''&'' # colorization_tail)"
      unfolding color_keep_clause_marker colorization_clause_marker .
    from sublist_single_marker [OF amp_not_in_heads_tails(1,2,3) this]
    have "prefix color_keep_tail (colorization_tail @ [])" by simp
    with tails_differ(1) show False by blast
  qed
  show "\<not> sublist colorization_clause color_keep_clause"
  proof
    assume "sublist colorization_clause color_keep_clause"
    then have "sublist (colorization_head @ CHR ''&'' # colorization_tail)
        (color_keep_head @ CHR ''&'' # color_keep_tail)"
      unfolding color_keep_clause_marker colorization_clause_marker .
    from sublist_single_marker [OF amp_not_in_heads_tails(3,4,1) this]
    have "prefix colorization_tail (color_keep_tail @ [])" by simp
    with tails_differ(2) show False by blast
  qed
qed

text \<open>
  Claim C5. The restore instruction contains the colorization clause and not the
  contrast/stain-removal clause when \<open>colorRestoration\<close> is true, and the
  contrast/stain-removal clause and not the colorization clause when it is false; so
  one of the two is present, never both and never neither. Neither clause occurs
  inside the other.
\<close>

theorem restore_prompt_one_color_clause:
  "(colorRestoration settings \<longrightarrow>
      sublist colorization_clause (restore_prompt settings)
      \<and> \<not> sublist color_keep_clause (restore_prompt settings))
   \<and> (\<not> colorRestoration settings \<longrightarrow>
      sublist color_keep_clause (restore_prompt settings)
      \<and> \<not> sublist colorization_clause (restore_prompt settings))
   \<and> (sublist colorization_clause (restore_prompt settings)
        \<noteq> sublist color_keep_clause (restore_prompt settings))
   \<and> \<not> sublist color_keep_clause colorization_clause
   \<and> \<not> sublist colorization_clause color_keep_clause"
  using color_clause_present [of settings] keep_clause_absent [of settings]
    colorization_clause_absent [of settings] clauses_not_nested
  by (cases "colorRestoration settings") simp_all

theorem restore_prompt_one_color_clause_witness:
  "colorRestoration DEFAULT_RESTORE_SETTINGS
   \<and> sublist colorization_clause (restore_prompt DEFAULT_RESTORE_SETTINGS)
   \<and> \<not> sublist color_keep_clause (restore_prompt DEFAULT_RESTORE_SETTINGS)
   \<and> \<not> colorRestoration (DEFAULT_RESTORE_SETTINGS\<lparr>colorRestoration := False\<rparr>)
   \<and> sublist color_keep_clause
        (restore_prompt (DEFAULT_RESTORE_SETTINGS\<lparr>colorRestoration := False\<rparr>))
   \<and> \<not> sublist colorization_clause
        (restore_prompt (DEFAULT_RESTORE_SETTINGS\<lparr>colorRestoration := False\<rparr>))"
proof -
  have t: "colorRestoration DEFAULT_RESTORE_SETTINGS"
    by (simp add: DEFAULT_RESTORE_SETTINGS_def)
  have f: "\<not> colorRestoration (DEFAULT_RESTORE_SETTINGS\<lparr>colorRestoration := False\<rparr>)"
    by simp
  from t f restore_prompt_one_color_clause [of DEFAULT_RESTORE_SETTINGS]
    restore_prompt_one_color_clause [of "DEFAULT_RESTORE_SETTINGS\<lparr>colorRestoration := False\<rparr>"]
  show ?thesis by blast
qed

text \<open>The clause occurs at one place only: right after the detail-recovery section.\<close>

lemma color_clause_occurs_once:
  assumes "restore_prompt settings =
      ps @ (if colorRestoration settings then colorization_clause else color_keep_clause) @ ss"
  shows "ps = restore_before_color settings \<and> ss = restore_after_color settings"
proof (cases "colorRestoration settings")
  case True
  have pa: "CHR ''&'' \<notin> set (restore_before_color settings @ colorization_head)"
    using amp_not_in_restore_before_color amp_not_in_heads_tails(1) by simp
  have pb: "CHR ''&'' \<notin> set (colorization_tail @ restore_after_color settings)"
    using amp_not_in_restore_after_color amp_not_in_heads_tails(2) by simp
  from assms True have "(restore_before_color settings @ colorization_head) @ CHR ''&'' #
      (colorization_tail @ restore_after_color settings)
      = ps @ (colorization_head @ CHR ''&'' # colorization_tail) @ ss"
    unfolding restore_prompt_colorize_marker [OF True] colorization_clause_marker by simp
  from occurrence_at_marker [OF pa pb amp_not_in_heads_tails(1) this]
  show ?thesis by simp
next
  case False
  have pa: "CHR ''&'' \<notin> set (restore_before_color settings @ color_keep_head)"
    using amp_not_in_restore_before_color amp_not_in_heads_tails(3) by simp
  have pb: "CHR ''&'' \<notin> set (color_keep_tail @ restore_after_color settings)"
    using amp_not_in_restore_after_color amp_not_in_heads_tails(4) by simp
  from assms False have "(restore_before_color settings @ color_keep_head) @ CHR ''&'' #
      (color_keep_tail @ restore_after_color settings)
      = ps @ (color_keep_head @ CHR ''&'' # color_keep_tail) @ ss"
    unfolding restore_prompt_keep_marker [OF False] color_keep_clause_marker by simp
  from occurrence_at_marker [OF pa pb amp_not_in_heads_tails(3) this]
  show ?thesis by simp
qed

end
